theory Spec2Isabelle
  imports Complex_Main
begin

section \<open>Python values the function handles\<close>

text \<open>
  \<^verbatim>\<open>draw_labels: str | bool | list | dict\<close> is a reference to a Python object; lists
  and dicts are mutable, so the objects live in a heap and the argument is an address.
  Strings and floats are immutable and are passed by value. The floats are only stored and
  forwarded, never computed with, so \<open>real\<close> stands for them.
\<close>

type_synonym ref = nat

datatype pyobj =
    PyStr string
  | PyBool bool
  | PyList "string list"
  | PyDict "(string \<times> string) list"

datatype exn =
    AttributeError string
  | ValueError string
  | TypeError string

record 'x pystate =
  heap :: "ref \<Rightarrow> pyobj option"
  ext :: 'x

section \<open>The plotting toolkit, as the function sees it\<close>

text \<open>
  The object a returning call \<^verbatim>\<open>ccrs.PlateCarree(central_longitude=...)\<close> yields: the
  Plate Carree projection with that central longitude. The call itself belongs to the
  toolkit below: it may raise.
\<close>

datatype projection = PlateCarree real

type_synonym subplot_kw = "(string \<times> projection) list"

type_synonym figure = nat

text \<open>A surface (an Axes object): its identity and the projection it was created with.\<close>

datatype surface = Surface nat "projection option"

text \<open>
  What \<^verbatim>\<open>plt.subplots\<close> hands back as \<^verbatim>\<open>ax\<close>: one Axes object, or a one- or
  two-dimensional array of them (a two-dimensional array as its list of rows).
\<close>

datatype axes =
    Single surface
  | Array1 "surface list"
  | Array2 "surface list list"

text \<open>\<^verbatim>\<open>ax.flat\<close>: the elements in row-major order; an Axes object has no such attribute.\<close>

definition flat :: "axes \<Rightarrow> exn + surface list" where
  "flat ax =
     (case ax of
        Single a \<Rightarrow> Inl (AttributeError ''flat'')
      | Array1 xs \<Rightarrow> Inr xs
      | Array2 rows \<Rightarrow> Inr (concat rows))"

text \<open>\<^verbatim>\<open>ax.shape\<close> of an array; a single Axes object has none.\<close>

definition shape :: "axes \<Rightarrow> nat list option" where
  "shape ax =
     (case ax of
        Single a \<Rightarrow> None
      | Array1 xs \<Rightarrow> Some [length xs]
      | Array2 rows \<Rightarrow> Some [length rows, (case rows of [] \<Rightarrow> 0 | r # _ \<Rightarrow> length r)])"

text \<open>
  The four library calls the function makes. Each may raise, and each may change the
  interpreter's state (the figure registry, the artists of a surface, any object it can
  reach). The value \<^verbatim>\<open>gridlines\<close> and \<^verbatim>\<open>coastlines\<close> return is dropped by the caller.
\<close>

record 'x provider =
  crs_PlateCarree ::
    "real \<Rightarrow> 'x pystate \<Rightarrow> exn option \<times> 'x pystate"
  plt_subplots ::
    "int \<Rightarrow> int \<Rightarrow> subplot_kw \<Rightarrow> 'x pystate \<Rightarrow> (exn + figure \<times> axes) \<times> 'x pystate"
  ax_gridlines ::
    "surface \<Rightarrow> ref \<Rightarrow> string \<Rightarrow> real \<Rightarrow> string \<Rightarrow> 'x pystate \<Rightarrow> exn option \<times> 'x pystate"
  ax_coastlines ::
    "surface \<Rightarrow> string \<Rightarrow> real \<Rightarrow> 'x pystate \<Rightarrow> exn option \<times> 'x pystate"

text \<open>
  A record of the calls made, oldest first, each with the exception it raised (if any):
  what a recording stub of the toolkit would see.
\<close>

datatype call =
    CallPlateCarree real
  | CallSubplots int int subplot_kw
  | CallGridlines surface ref string real string
  | CallCoastlines surface string real

type_synonym event = "call \<times> exn option"

type_synonym 'x run = "event list \<times> 'x pystate"

definition raised :: "exn + 'a \<Rightarrow> exn option" where
  "raised r = (case r of Inl e \<Rightarrow> Some e | Inr v \<Rightarrow> None)"

definition do_PlateCarree ::
  "'x provider \<Rightarrow> real \<Rightarrow> 'x run \<Rightarrow> exn option \<times> 'x run" where
  "do_PlateCarree P cl st =
     (case st of (tr, s) \<Rightarrow>
        (case crs_PlateCarree P cl s of (r, s') \<Rightarrow>
           (r, tr @ [(CallPlateCarree cl, r)], s')))"

definition do_subplots ::
  "'x provider \<Rightarrow> int \<Rightarrow> int \<Rightarrow> subplot_kw \<Rightarrow> 'x run \<Rightarrow> (exn + figure \<times> axes) \<times> 'x run" where
  "do_subplots P nr nc kw st =
     (case st of (tr, s) \<Rightarrow>
        (case plt_subplots P nr nc kw s of (r, s') \<Rightarrow>
           (r, tr @ [(CallSubplots nr nc kw, raised r)], s')))"

definition do_gridlines ::
  "'x provider \<Rightarrow> surface \<Rightarrow> ref \<Rightarrow> string \<Rightarrow> real \<Rightarrow> string \<Rightarrow> 'x run \<Rightarrow> exn option \<times> 'x run" where
  "do_gridlines P a dl c al ls st =
     (case st of (tr, s) \<Rightarrow>
        (case ax_gridlines P a dl c al ls s of (r, s') \<Rightarrow>
           (r, tr @ [(CallGridlines a dl c al ls, r)], s')))"

definition do_coastlines ::
  "'x provider \<Rightarrow> surface \<Rightarrow> string \<Rightarrow> real \<Rightarrow> 'x run \<Rightarrow> exn option \<times> 'x run" where
  "do_coastlines P a ec lw st =
     (case st of (tr, s) \<Rightarrow>
        (case ax_coastlines P a ec lw s of (r, s') \<Rightarrow>
           (r, tr @ [(CallCoastlines a ec lw, r)], s')))"

section \<open>quick\_draw\_spatial\_basemap\<close>

record basemap_args =
  nrows :: int
  ncols :: int
  central_longitude :: real
  draw_labels :: ref
  gridlines_color :: string
  gridlines_alpha :: real
  gridlines_linestyle :: string
  coastlines_edgecolor :: string
  coastlines_linewidths :: real

text \<open>
  The default of \<^verbatim>\<open>draw_labels\<close> is evaluated once, when the \<^verbatim>\<open>def\<close> is executed: one
  list object, whose address every call without that argument receives.
\<close>

definition default_draw_labels :: ref where
  "default_draw_labels = 0"

definition module_heap :: "ref \<Rightarrow> pyobj option" where
  "module_heap = (\<lambda>r. if r = default_draw_labels then Some (PyList [''bottom'', ''left'']) else None)"

definition default_args :: basemap_args where
  "default_args =
     \<lparr>nrows = 1, ncols = 1, central_longitude = 0.0, draw_labels = default_draw_labels,
      gridlines_color = ''grey'', gridlines_alpha = 0.5, gridlines_linestyle = ''--'',
      coastlines_edgecolor = ''black'', coastlines_linewidths = 0.5\<rparr>"

text \<open>The body of \<^verbatim>\<open>for axi in ax.flat\<close>, over the elements still to visit.\<close>

fun decorate_each :: "'x provider \<Rightarrow> basemap_args \<Rightarrow> surface list \<Rightarrow> 'x run \<Rightarrow> exn option \<times> 'x run" where
  "decorate_each P A [] st = (None, st)"
| "decorate_each P A (axi # rest) st =
     (case do_gridlines P axi (draw_labels A) (gridlines_color A) (gridlines_alpha A)
             (gridlines_linestyle A) st of
        (Some e, st1) \<Rightarrow> (Some e, st1)
      | (None, st1) \<Rightarrow>
          (case do_coastlines P axi (coastlines_edgecolor A) (coastlines_linewidths A) st1 of
             (Some e, st2) \<Rightarrow> (Some e, st2)
           | (None, st2) \<Rightarrow> decorate_each P A rest st2))"

text \<open>
  The function: the outcome (the exception, or the pair \<^verbatim>\<open>fig, ax\<close>), the calls it made
  and the state it leaves. The arguments of \<^verbatim>\<open>plt.subplots\<close> are evaluated before it is
  entered, so the projection is built first, and if that raises nothing else is called. In
  the first branch \<^verbatim>\<open>ax.gridlines\<close> on an array raises
  AttributeError, as \<^verbatim>\<open>ax.flat\<close> on a single Axes object does in the second.
\<close>

definition quick_draw_spatial_basemap ::
  "'x provider \<Rightarrow> basemap_args \<Rightarrow> 'x pystate \<Rightarrow> (exn + figure \<times> axes) \<times> 'x run" where
  "quick_draw_spatial_basemap P A s =
     (case do_PlateCarree P (central_longitude A) ([], s) of
        (Some e, st0) \<Rightarrow> (Inl e, st0)
      | (None, st0) \<Rightarrow>
     (case do_subplots P (nrows A) (ncols A)
             [(''projection'', PlateCarree (central_longitude A))] st0 of
        (Inl e, st) \<Rightarrow> (Inl e, st)
      | (Inr (fig, ax), st) \<Rightarrow>
          if nrows A = 1 \<and> ncols A = 1 then
            (case ax of
               Single a \<Rightarrow>
                 (case do_gridlines P a (draw_labels A) (gridlines_color A) (gridlines_alpha A)
                         (gridlines_linestyle A) st of
                    (Some e, st1) \<Rightarrow> (Inl e, st1)
                  | (None, st1) \<Rightarrow>
                      (case do_coastlines P a (coastlines_edgecolor A)
                              (coastlines_linewidths A) st1 of
                         (Some e, st2) \<Rightarrow> (Inl e, st2)
                       | (None, st2) \<Rightarrow> (Inr (fig, ax), st2)))
             | Array1 xs \<Rightarrow> (Inl (AttributeError ''gridlines''), st)
             | Array2 rows \<Rightarrow> (Inl (AttributeError ''gridlines''), st))
          else
            (case flat ax of
               Inl e \<Rightarrow> (Inl e, st)
             | Inr axs \<Rightarrow>
                 (case decorate_each P A axs st of
                    (Some e, st1) \<Rightarrow> (Inl e, st1)
                  | (None, st1) \<Rightarrow> (Inr (fig, ax), st1)))))"

section \<open>Vocabulary of the properties\<close>

text \<open>Every surface of what \<^verbatim>\<open>plt.subplots\<close> returned, in row-major order.\<close>

definition surfaces :: "axes \<Rightarrow> surface list" where
  "surfaces ax =
     (case ax of
        Single a \<Rightarrow> [a]
      | Array1 xs \<Rightarrow> xs
      | Array2 rows \<Rightarrow> concat rows)"

definition projection_of :: "surface \<Rightarrow> projection option" where
  "projection_of a = (case a of Surface i p \<Rightarrow> p)"

text \<open>The two decorations of one surface, in the order and with the styles the arguments give.\<close>

definition gridline_call :: "basemap_args \<Rightarrow> surface \<Rightarrow> call" where
  "gridline_call A a =
     CallGridlines a (draw_labels A) (gridlines_color A) (gridlines_alpha A) (gridlines_linestyle A)"

definition coastline_call :: "basemap_args \<Rightarrow> surface \<Rightarrow> call" where
  "coastline_call A a = CallCoastlines a (coastlines_edgecolor A) (coastlines_linewidths A)"

definition decorated :: "basemap_args \<Rightarrow> surface list \<Rightarrow> event list" where
  "decorated A axs = concat (map (\<lambda>a. [(gridline_call A a, None), (coastline_call A a, None)]) axs)"

definition projection_call :: "basemap_args \<Rightarrow> call" where
  "projection_call A = CallPlateCarree (central_longitude A)"

definition subplots_call :: "basemap_args \<Rightarrow> call" where
  "subplots_call A =
     CallSubplots (nrows A) (ncols A) [(''projection'', PlateCarree (central_longitude A))]"


definition is_projection :: "call \<Rightarrow> bool" where
  "is_projection c = (case c of CallPlateCarree cl \<Rightarrow> True | _ \<Rightarrow> False)"

definition is_subplots :: "call \<Rightarrow> bool" where
  "is_subplots c = (case c of CallSubplots nr nc kw \<Rightarrow> True | _ \<Rightarrow> False)"

text \<open>
  The shape \<^verbatim>\<open>pyplot.subplots\<close> documents for its default \<^verbatim>\<open>squeeze=True\<close>: no array for
  a 1 by 1 grid, one dimension for a single row or column, (rows, columns) otherwise.
\<close>

definition squeezed_shape :: "int \<Rightarrow> int \<Rightarrow> nat list option" where
  "squeezed_shape nr nc =
     (if nr = 1 \<and> nc = 1 then None
      else if nr = 1 \<or> nc = 1 then Some [nat (nr * nc)]
      else Some [nat nr, nat nc])"

definition squeeze_contract :: "'x provider \<Rightarrow> bool" where
  "squeeze_contract P =
     (\<forall>nr nc kw s fig ax s'.
        plt_subplots P nr nc kw s = (Inr (fig, ax), s') \<longrightarrow> shape ax = squeezed_shape nr nc)"

text \<open>
  What the two branches of the function rely on from \<^verbatim>\<open>plt.subplots\<close>: a single Axes
  object exactly for a 1 by 1 grid.
\<close>

definition scalar_contract :: "'x provider \<Rightarrow> bool" where
  "scalar_contract P =
     (\<forall>nr nc kw s fig ax s'.
        plt_subplots P nr nc kw s = (Inr (fig, ax), s') \<longrightarrow>
          ((\<exists>a. ax = Single a) = (nr = 1 \<and> nc = 1)))"

text \<open>That, and as many surfaces as the grid has cells.\<close>

definition grid_contract :: "'x provider \<Rightarrow> bool" where
  "grid_contract P =
     (\<forall>nr nc kw s fig ax s'.
        plt_subplots P nr nc kw s = (Inr (fig, ax), s') \<longrightarrow>
          ((\<exists>a. ax = Single a) = (nr = 1 \<and> nc = 1)) \<and> int (length (surfaces ax)) = nr * nc)"

text \<open>\<^verbatim>\<open>plt.subplots\<close> creates every surface with the projection of \<^verbatim>\<open>subplot_kw\<close>.\<close>

definition projection_contract :: "'x provider \<Rightarrow> bool" where
  "projection_contract P =
     (\<forall>nr nc kw s fig ax s'.
        plt_subplots P nr nc kw s = (Inr (fig, ax), s') \<longrightarrow>
          (\<forall>a \<in> set (surfaces ax). projection_of a = map_of kw ''projection''))"

text \<open>None of the library calls changes the object at address \<open>r\<close>.\<close>

definition leaves_object :: "'x provider \<Rightarrow> ref \<Rightarrow> bool" where
  "leaves_object P r =
     ((\<forall>cl s. heap (snd (crs_PlateCarree P cl s)) r = heap s r) \<and>
      (\<forall>nr nc kw s. heap (snd (plt_subplots P nr nc kw s)) r = heap s r) \<and>
      (\<forall>a dl c al ls s. heap (snd (ax_gridlines P a dl c al ls s)) r = heap s r) \<and>
      (\<forall>a ec lw s. heap (snd (ax_coastlines P a ec lw s)) r = heap s r))"

text \<open>\<open>n\<close> calls of the function in a row, each with the default arguments; the state after them.\<close>

fun repeated_default_calls :: "'x provider \<Rightarrow> nat \<Rightarrow> 'x pystate \<Rightarrow> 'x pystate" where
  "repeated_default_calls P 0 s = s"
| "repeated_default_calls P (Suc n) s =
     repeated_default_calls P n (snd (snd (quick_draw_spatial_basemap P default_args s)))"

section \<open>A stand-in for the toolkit\<close>

text \<open>
  To run the function on concrete inputs. Its \<open>stub_subplots\<close> answers as
  \<^verbatim>\<open>pyplot.subplots\<close> is documented to when \<^verbatim>\<open>squeeze\<close> is left at its default, which is
  how the function calls it: one Axes object for a 1 by 1 grid, a one-dimensional array
  for a single row or a single column, a two-dimensional array otherwise; a count that is
  not positive raises ValueError. The state counts the objects created so far. Every call
  can be made to raise through \<open>fails\<close>.
\<close>

definition stub_subplots ::
  "int \<Rightarrow> int \<Rightarrow> subplot_kw \<Rightarrow> nat pystate \<Rightarrow> (exn + figure \<times> axes) \<times> nat pystate" where
  "stub_subplots nr nc kw s =
     (if nr \<le> 0 \<or> nc \<le> 0 then (Inl (ValueError ''Number of rows and columns must be positive''), s)
      else
        (let proj = map_of kw ''projection'';
             rows = map (\<lambda>i. map (\<lambda>j. Surface (ext s + 1 + i * nat nc + j) proj) [0..<nat nc])
                      [0..<nat nr];
             ax = (if nr = 1 \<and> nc = 1 then Single (Surface (ext s + 1) proj)
                   else if nr = 1 \<or> nc = 1 then Array1 (concat rows)
                   else Array2 rows)
         in (Inr (ext s, ax), s\<lparr>ext := ext s + 1 + nat (nr * nc)\<rparr>)))"

definition stub :: "(call \<Rightarrow> exn option) \<Rightarrow> nat provider" where
  "stub fails =
     \<lparr>crs_PlateCarree = (\<lambda>cl s. (fails (CallPlateCarree cl), s)),
      plt_subplots = (\<lambda>nr nc kw s.
        (case fails (CallSubplots nr nc kw) of
           Some e \<Rightarrow> (Inl e, s)
         | None \<Rightarrow> stub_subplots nr nc kw s)),
      ax_gridlines = (\<lambda>a dl c al ls s. (fails (CallGridlines a dl c al ls), s)),
      ax_coastlines = (\<lambda>a ec lw s. (fails (CallCoastlines a ec lw), s))\<rparr>"

definition never :: "call \<Rightarrow> exn option" where
  "never c = None"


definition projection_fails :: "call \<Rightarrow> exn option" where
  "projection_fails c =
     (case c of CallPlateCarree cl \<Rightarrow> Some (TypeError ''central_longitude'') | _ \<Rightarrow> None)"

definition module_state :: "nat pystate" where
  "module_state = \<lparr>heap = module_heap, ext = 0\<rparr>"

section \<open>The calls of the loop\<close>

lemma decorated_Nil: "decorated A [] = []"
  by (simp add: decorated_def)

lemma decorated_Cons:
  "decorated A (a # axs) = (gridline_call A a, None) # (coastline_call A a, None) # decorated A axs"
  by (simp add: decorated_def)

lemma decorate_each_returns:
  "decorate_each P A axs (tr, s) = (None, tr', s') \<Longrightarrow> tr' = tr @ decorated A axs"
proof (induction axs arbitrary: tr s)
  case Nil
  then show ?case by (simp add: decorated_Nil)
next
  case (Cons a axs)
  from Cons.prems show ?case
    by (auto simp: do_gridlines_def do_coastlines_def decorated_Cons gridline_call_def
        coastline_call_def split: prod.splits option.splits dest!: Cons.IH)
qed

lemma decorate_each_raises:
  "decorate_each P A axs (tr, s) = (Some e, tr', s') \<Longrightarrow>
     \<exists>pre a post. axs = pre @ a # post \<and>
       (tr' = tr @ decorated A pre @ [(gridline_call A a, Some e)] \<or>
        tr' = tr @ decorated A pre @ [(gridline_call A a, None), (coastline_call A a, Some e)])"
proof (induction axs arbitrary: tr s)
  case Nil
  then show ?case by simp
next
  case (Cons x axs)
  obtain r1 s1 where g: "ax_gridlines P x (draw_labels A) (gridlines_color A) (gridlines_alpha A)
             (gridlines_linestyle A) s = (r1, s1)"
    by (cases "ax_gridlines P x (draw_labels A) (gridlines_color A) (gridlines_alpha A)
             (gridlines_linestyle A) s")
  show ?case
  proof (cases r1)
    case (Some e1)
    with g Cons.prems have "e1 = e" "tr' = tr @ [(gridline_call A x, Some e)]"
      by (auto simp: do_gridlines_def gridline_call_def)
    then have "x # axs = [] @ x # axs \<and> tr' = tr @ decorated A [] @ [(gridline_call A x, Some e)]"
      by (simp add: decorated_Nil)
    then show ?thesis by blast
  next
    case None
    obtain r2 s2 where c: "ax_coastlines P x (coastlines_edgecolor A) (coastlines_linewidths A) s1 = (r2, s2)"
      by (cases "ax_coastlines P x (coastlines_edgecolor A) (coastlines_linewidths A) s1")
    show ?thesis
    proof (cases r2)
      case (Some e2)
      with g c None Cons.prems have "e2 = e"
        "tr' = tr @ [(gridline_call A x, None), (coastline_call A x, Some e)]"
        by (auto simp: do_gridlines_def do_coastlines_def gridline_call_def coastline_call_def)
      then have "x # axs = [] @ x # axs \<and>
          tr' = tr @ decorated A [] @ [(gridline_call A x, None), (coastline_call A x, Some e)]"
        by (simp add: decorated_Nil)
      then show ?thesis by blast
    next
      case n2: None
      with g c None Cons.prems have
        "decorate_each P A axs (tr @ [(gridline_call A x, None), (coastline_call A x, None)], s2) = (Some e, tr', s')"
        by (auto simp: do_gridlines_def do_coastlines_def gridline_call_def coastline_call_def)
      from Cons.IH [OF this] obtain pre a post where
        ax: "axs = pre @ a # post" and
        t: "tr' = (tr @ [(gridline_call A x, None), (coastline_call A x, None)]) @ decorated A pre @ [(gridline_call A a, Some e)] \<or>
        tr' = (tr @ [(gridline_call A x, None), (coastline_call A x, None)]) @ decorated A pre @ [(gridline_call A a, None), (coastline_call A a, Some e)]"
        by blast
      from ax have "x # axs = (x # pre) @ a # post" by simp
      moreover from t have "tr' = tr @ decorated A (x # pre) @ [(gridline_call A a, Some e)] \<or>
        tr' = tr @ decorated A (x # pre) @ [(gridline_call A a, None), (coastline_call A a, Some e)]"
        by (simp add: decorated_Cons)
      ultimately show ?thesis by blast
    qed
  qed
qed

lemma decorate_each_heap:
  "leaves_object P r \<Longrightarrow> decorate_each P A axs (tr, s) = (res, tr', s') \<Longrightarrow> heap s' r = heap s r"
proof (induction axs arbitrary: tr s)
  case Nil
  then show ?case by simp
next
  case (Cons a axs)
  have g: "heap (snd (ax_gridlines P a dl c al ls s0)) r = heap s0 r" for dl c al ls s0
    using Cons.prems(1) by (simp add: leaves_object_def)
  have c: "heap (snd (ax_coastlines P a ec lw s0)) r = heap s0 r" for ec lw s0
    using Cons.prems(1) by (simp add: leaves_object_def)
  obtain r1 s1 where g1: "ax_gridlines P a (draw_labels A) (gridlines_color A) (gridlines_alpha A)
             (gridlines_linestyle A) s = (r1, s1)"
    by (cases "ax_gridlines P a (draw_labels A) (gridlines_color A) (gridlines_alpha A)
             (gridlines_linestyle A) s")
  obtain r2 s2 where c1: "ax_coastlines P a (coastlines_edgecolor A) (coastlines_linewidths A) s1 = (r2, s2)"
    by (cases "ax_coastlines P a (coastlines_edgecolor A) (coastlines_linewidths A) s1")
  from g [of "draw_labels A" "gridlines_color A" "gridlines_alpha A" "gridlines_linestyle A" s] g1
  have h1: "heap s1 r = heap s r" by simp
  from c [of "coastlines_edgecolor A" "coastlines_linewidths A" s1] c1
  have h2: "heap s2 r = heap s1 r" by simp
  show ?case
  proof (cases r1)
    case (Some e1)
    with g1 Cons.prems(2) have "s' = s1" by (simp add: do_gridlines_def)
    with h1 show ?thesis by simp
  next
    case None
    show ?thesis
    proof (cases r2)
      case (Some e2)
      with None g1 c1 Cons.prems(2) have "s' = s2"
        by (simp add: do_gridlines_def do_coastlines_def)
      with h1 h2 show ?thesis by simp
    next
      case n2: None
      with None g1 c1 Cons.prems(2) have "\<exists>tr2. decorate_each P A axs (tr2, s2) = (res, tr', s')"
        by (auto simp: do_gridlines_def do_coastlines_def)
      then obtain tr2 where "decorate_each P A axs (tr2, s2) = (res, tr', s')" by blast
      from Cons.IH [OF Cons.prems(1) this] h1 h2 show ?thesis by simp
    qed
  qed
qed

section \<open>The calls of the function\<close>

lemma quick_draw_returns:
  assumes "quick_draw_spatial_basemap P A s = (Inr (fig, ax), tr, s')"
  shows "\<exists>s0 s1. crs_PlateCarree P (central_longitude A) s = (None, s0) \<and>
           plt_subplots P (nrows A) (ncols A)
             [(''projection'', PlateCarree (central_longitude A))] s0 = (Inr (fig, ax), s1)"
    and "tr = (projection_call A, None) # (subplots_call A, None) # decorated A (surfaces ax)"
    and "(\<exists>a. ax = Single a) = (nrows A = 1 \<and> ncols A = 1)"
proof -
  obtain c0 s0 where c: "crs_PlateCarree P (central_longitude A) s = (c0, s0)"
    by (cases "crs_PlateCarree P (central_longitude A) s")
  from assms c have c0: "c0 = None"
    by (cases c0) (auto simp: quick_draw_spatial_basemap_def do_PlateCarree_def)
  obtain r0 s1 where p: "plt_subplots P (nrows A) (ncols A)
           [(''projection'', PlateCarree (central_longitude A))] s0 = (r0, s1)"
    by (cases "plt_subplots P (nrows A) (ncols A)
           [(''projection'', PlateCarree (central_longitude A))] s0")
  from assms c c0 p obtain fig0 ax0 where r0: "r0 = Inr (fig0, ax0)"
    by (cases r0) (auto simp: quick_draw_spatial_basemap_def do_PlateCarree_def do_subplots_def)
  have all: "fig0 = fig \<and> ax0 = ax \<and>
      tr = (projection_call A, None) # (subplots_call A, None) # decorated A (surfaces ax) \<and>
      ((\<exists>a. ax = Single a) = (nrows A = 1 \<and> ncols A = 1))"
  proof (cases "nrows A = 1 \<and> ncols A = 1")
    case True
    with assms c c0 p r0 show ?thesis
      by (cases ax0)
        (auto simp: quick_draw_spatial_basemap_def do_PlateCarree_def do_subplots_def
          do_gridlines_def do_coastlines_def raised_def projection_call_def subplots_call_def
          decorated_def gridline_call_def coastline_call_def surfaces_def
          split: prod.splits option.splits)
  next
    case False
    with assms c c0 p r0 show ?thesis
      by (cases ax0)
        (auto simp: quick_draw_spatial_basemap_def do_PlateCarree_def do_subplots_def raised_def
          projection_call_def subplots_call_def flat_def surfaces_def
          split: prod.splits option.splits dest!: decorate_each_returns)
  qed
  from all c c0 p r0 show "\<exists>s0 s1. crs_PlateCarree P (central_longitude A) s = (None, s0) \<and>
           plt_subplots P (nrows A) (ncols A)
             [(''projection'', PlateCarree (central_longitude A))] s0 = (Inr (fig, ax), s1)"
    by simp
  from all show "tr = (projection_call A, None) # (subplots_call A, None) #
      decorated A (surfaces ax)" by simp
  from all show "(\<exists>a. ax = Single a) = (nrows A = 1 \<and> ncols A = 1)" by simp
qed

lemma quick_draw_raises:
  assumes "quick_draw_spatial_basemap P A s = (Inl e, tr, s')"
  shows "(crs_PlateCarree P (central_longitude A) s = (Some e, s') \<and>
          tr = [(projection_call A, Some e)]) \<or>
         (\<exists>s0. crs_PlateCarree P (central_longitude A) s = (None, s0) \<and>
            plt_subplots P (nrows A) (ncols A)
              [(''projection'', PlateCarree (central_longitude A))] s0 = (Inl e, s') \<and>
            tr = [(projection_call A, None), (subplots_call A, Some e)]) \<or>
         (\<exists>s0 fig ax. crs_PlateCarree P (central_longitude A) s = (None, s0) \<and>
            plt_subplots P (nrows A) (ncols A)
              [(''projection'', PlateCarree (central_longitude A))] s0 = (Inr (fig, ax), s') \<and>
            (\<exists>a. ax = Single a) \<noteq> (nrows A = 1 \<and> ncols A = 1) \<and>
            (e = AttributeError ''gridlines'' \<or> e = AttributeError ''flat'') \<and>
            tr = [(projection_call A, None), (subplots_call A, None)]) \<or>
         (\<exists>s0 fig ax s1 pre a post.
            crs_PlateCarree P (central_longitude A) s = (None, s0) \<and>
            plt_subplots P (nrows A) (ncols A)
              [(''projection'', PlateCarree (central_longitude A))] s0 = (Inr (fig, ax), s1) \<and>
            (\<exists>a. ax = Single a) = (nrows A = 1 \<and> ncols A = 1) \<and>
            surfaces ax = pre @ a # post \<and>
            (tr = (projection_call A, None) # (subplots_call A, None) # decorated A pre @
                    [(gridline_call A a, Some e)] \<or>
             tr = (projection_call A, None) # (subplots_call A, None) # decorated A pre @
                    [(gridline_call A a, None), (coastline_call A a, Some e)]))"
proof -
  obtain c0 s0 where c: "crs_PlateCarree P (central_longitude A) s = (c0, s0)"
    by (cases "crs_PlateCarree P (central_longitude A) s")
  show ?thesis
  proof (cases c0)
    case (Some e0)
    with assms c have "e0 = e \<and> s0 = s' \<and> tr = [(projection_call A, Some e)]"
      by (auto simp: quick_draw_spatial_basemap_def do_PlateCarree_def projection_call_def)
    with c Some show ?thesis by simp
  next
    case None
    note c0 = None
    obtain r0 s1 where p: "plt_subplots P (nrows A) (ncols A)
           [(''projection'', PlateCarree (central_longitude A))] s0 = (r0, s1)"
      by (cases "plt_subplots P (nrows A) (ncols A)
           [(''projection'', PlateCarree (central_longitude A))] s0")
    show ?thesis
    proof (cases r0)
      case (Inl e0)
      with assms c c0 p
      have "e0 = e \<and> s1 = s' \<and> tr = [(projection_call A, None), (subplots_call A, Some e)]"
        by (auto simp: quick_draw_spatial_basemap_def do_PlateCarree_def do_subplots_def
            raised_def projection_call_def subplots_call_def)
      with c c0 p Inl show ?thesis by simp
    next
      case (Inr fa)
      obtain fig ax where fa: "fa = (fig, ax)" by (cases fa)
      let ?st = "([(projection_call A, None), (subplots_call A, None)], s1)"
      show ?thesis
      proof (cases "nrows A = 1 \<and> ncols A = 1")
        case True
        show ?thesis
        proof (cases ax)
          case (Single a)
          have sf: "surfaces ax = [] @ a # []" by (simp add: surfaces_def Single)
          from assms c c0 p Inr fa True Single
          have "tr = (projection_call A, None) # (subplots_call A, None) # decorated A [] @
                    [(gridline_call A a, Some e)] \<or>
             tr = (projection_call A, None) # (subplots_call A, None) # decorated A [] @
                    [(gridline_call A a, None), (coastline_call A a, Some e)]"
            by (auto simp: quick_draw_spatial_basemap_def do_PlateCarree_def do_subplots_def
                do_gridlines_def do_coastlines_def raised_def projection_call_def
                subplots_call_def decorated_def gridline_call_def coastline_call_def
                split: prod.splits option.splits)
          with c c0 p Inr fa True Single sf show ?thesis by blast
        next
          case (Array1 xs)
          with assms c c0 p Inr fa True
          have "e = AttributeError ''gridlines'' \<and> s1 = s' \<and>
              tr = [(projection_call A, None), (subplots_call A, None)]"
            by (auto simp: quick_draw_spatial_basemap_def do_PlateCarree_def do_subplots_def
                raised_def projection_call_def subplots_call_def)
          with c c0 p Inr fa True Array1 show ?thesis by simp
        next
          case (Array2 rows)
          with assms c c0 p Inr fa True
          have "e = AttributeError ''gridlines'' \<and> s1 = s' \<and>
              tr = [(projection_call A, None), (subplots_call A, None)]"
            by (auto simp: quick_draw_spatial_basemap_def do_PlateCarree_def do_subplots_def
                raised_def projection_call_def subplots_call_def)
          with c c0 p Inr fa True Array2 show ?thesis by simp
        qed
      next
        case False
        show ?thesis
        proof (cases ax)
          case (Single a)
          with assms c c0 p Inr fa False
          have "e = AttributeError ''flat'' \<and> s1 = s' \<and>
              tr = [(projection_call A, None), (subplots_call A, None)]"
            by (auto simp: quick_draw_spatial_basemap_def do_PlateCarree_def do_subplots_def
                raised_def projection_call_def subplots_call_def flat_def)
          with c c0 p Inr fa False Single show ?thesis by auto
        next
          case (Array1 xs)
          with assms c c0 p Inr fa False
          have "\<exists>s2. decorate_each P A (surfaces ax) ?st = (Some e, tr, s2)"
            by (auto simp: quick_draw_spatial_basemap_def do_PlateCarree_def do_subplots_def
                raised_def projection_call_def subplots_call_def flat_def surfaces_def
                split: prod.splits option.splits)
          then obtain s2 where "decorate_each P A (surfaces ax) ?st = (Some e, tr, s2)" by blast
          from decorate_each_raises [OF this] obtain pre a post where
            "surfaces ax = pre @ a # post"
            "tr = (projection_call A, None) # (subplots_call A, None) # decorated A pre @
                    [(gridline_call A a, Some e)] \<or>
             tr = (projection_call A, None) # (subplots_call A, None) # decorated A pre @
                    [(gridline_call A a, None), (coastline_call A a, Some e)]"
            by auto
          with c c0 p Inr fa False Array1 show ?thesis by blast
        next
          case (Array2 rows)
          with assms c c0 p Inr fa False
          have "\<exists>s2. decorate_each P A (surfaces ax) ?st = (Some e, tr, s2)"
            by (auto simp: quick_draw_spatial_basemap_def do_PlateCarree_def do_subplots_def
                raised_def projection_call_def subplots_call_def flat_def surfaces_def
                split: prod.splits option.splits)
          then obtain s2 where "decorate_each P A (surfaces ax) ?st = (Some e, tr, s2)" by blast
          from decorate_each_raises [OF this] obtain pre a post where
            "surfaces ax = pre @ a # post"
            "tr = (projection_call A, None) # (subplots_call A, None) # decorated A pre @
                    [(gridline_call A a, Some e)] \<or>
             tr = (projection_call A, None) # (subplots_call A, None) # decorated A pre @
                    [(gridline_call A a, None), (coastline_call A a, Some e)]"
            by auto
          with c c0 p Inr fa False Array2 show ?thesis by blast
        qed
      qed
    qed
  qed
qed

lemma quick_draw_heap:
  assumes "leaves_object P r"
  shows "heap (snd (snd (quick_draw_spatial_basemap P A s))) r = heap s r"
proof -
  obtain c0 s0 where c: "crs_PlateCarree P (central_longitude A) s = (c0, s0)"
    by (cases "crs_PlateCarree P (central_longitude A) s")
  have "heap (snd (crs_PlateCarree P (central_longitude A) s)) r = heap s r"
    using assms by (simp add: leaves_object_def)
  with c have hc: "heap s0 r = heap s r" by simp
  show ?thesis
  proof (cases c0)
    case (Some e)
    with c hc show ?thesis
      by (simp add: quick_draw_spatial_basemap_def do_PlateCarree_def)
  next
    case None
    note c0 = None
    obtain r0 s1 where p: "plt_subplots P (nrows A) (ncols A)
           [(''projection'', PlateCarree (central_longitude A))] s0 = (r0, s1)"
      by (cases "plt_subplots P (nrows A) (ncols A)
           [(''projection'', PlateCarree (central_longitude A))] s0")
    have "heap (snd (plt_subplots P (nrows A) (ncols A)
           [(''projection'', PlateCarree (central_longitude A))] s0)) r = heap s0 r"
      using assms by (simp add: leaves_object_def)
    with p hc have h0: "heap s1 r = heap s r" by simp
    have g: "heap (snd (ax_gridlines P a dl cc al ls s2)) r = heap s2 r" for a dl cc al ls s2
      using assms by (simp add: leaves_object_def)
    have k: "heap (snd (ax_coastlines P a ec lw s2)) r = heap s2 r" for a ec lw s2
      using assms by (simp add: leaves_object_def)
    have l: "heap (snd (snd (decorate_each P A axs (tr, s2)))) r = heap s2 r" for axs tr s2
      using decorate_each_heap [OF assms, of A axs tr s2]
      by (cases "decorate_each P A axs (tr, s2)") auto
    show ?thesis
    proof (cases r0)
      case (Inl e)
      with c c0 p h0 show ?thesis
        by (simp add: quick_draw_spatial_basemap_def do_PlateCarree_def do_subplots_def)
    next
      case (Inr fa)
      obtain fig ax where fa: "fa = (fig, ax)" by (cases fa)
      show ?thesis
      proof (cases "nrows A = 1 \<and> ncols A = 1")
        case True
        show ?thesis
        proof (cases ax)
          case (Single a)
          obtain r1 s2 where g1: "ax_gridlines P a (draw_labels A) (gridlines_color A)
               (gridlines_alpha A) (gridlines_linestyle A) s1 = (r1, s2)"
            by (cases "ax_gridlines P a (draw_labels A) (gridlines_color A)
               (gridlines_alpha A) (gridlines_linestyle A) s1")
          obtain r2 s3 where k1: "ax_coastlines P a (coastlines_edgecolor A)
               (coastlines_linewidths A) s2 = (r2, s3)"
            by (cases "ax_coastlines P a (coastlines_edgecolor A) (coastlines_linewidths A) s2")
          from g [of a "draw_labels A" "gridlines_color A" "gridlines_alpha A"
              "gridlines_linestyle A" s1] g1
          have h1: "heap s2 r = heap s1 r" by simp
          from k [of a "coastlines_edgecolor A" "coastlines_linewidths A" s2] k1
          have h2: "heap s3 r = heap s2 r" by simp
          from c c0 p Inr fa True Single g1 k1 h0 h1 h2 show ?thesis
            by (auto simp: quick_draw_spatial_basemap_def do_PlateCarree_def do_subplots_def
                do_gridlines_def do_coastlines_def split: option.splits)
        next
          case (Array1 xs)
          with c c0 p Inr fa True h0 show ?thesis
            by (simp add: quick_draw_spatial_basemap_def do_PlateCarree_def do_subplots_def)
        next
          case (Array2 rows)
          with c c0 p Inr fa True h0 show ?thesis
            by (simp add: quick_draw_spatial_basemap_def do_PlateCarree_def do_subplots_def)
        qed
      next
        case False
        show ?thesis
        proof (cases "flat ax")
          case (Inl e)
          with c c0 p Inr fa False h0 show ?thesis
            by (auto simp: quick_draw_spatial_basemap_def do_PlateCarree_def do_subplots_def)
        next
          case fl: (Inr axs)
          define tr0 where "tr0 = [(CallPlateCarree (central_longitude A), None::exn option),
              (CallSubplots (nrows A) (ncols A)
                 [(''projection'', PlateCarree (central_longitude A))], raised r0)]"
          obtain r3 tr3 s3 where d: "decorate_each P A axs (tr0, s1) = (r3, tr3, s3)"
            by (cases "decorate_each P A axs (tr0, s1)")
          from l [of axs tr0 s1] d have "heap s3 r = heap s1 r" by simp
          with c c0 p Inr fa False fl d h0 show ?thesis
            by (auto simp: quick_draw_spatial_basemap_def do_PlateCarree_def do_subplots_def
                tr0_def split: option.splits)
        qed
      qed
    qed
  qed
qed

section \<open>The stand-in keeps the toolkit's contracts\<close>

lemma length_grid: "length (concat (map (\<lambda>i. map (g i) [0..<m]) [0..<n])) = n * m"
  by (induction n) simp_all

lemma stub_subplots_returns:
  assumes "plt_subplots (stub fails) nr nc kw s = (Inr (fig, ax), s')"
  shows "0 < nr \<and> 0 < nc \<and>
         ax = (if nr = 1 \<and> nc = 1 then Single (Surface (ext s + 1) (map_of kw ''projection''))
               else if nr = 1 \<or> nc = 1 then
                 Array1 (concat (map (\<lambda>i. map (\<lambda>j. Surface (ext s + 1 + i * nat nc + j)
                   (map_of kw ''projection'')) [0..<nat nc]) [0..<nat nr]))
               else Array2 (map (\<lambda>i. map (\<lambda>j. Surface (ext s + 1 + i * nat nc + j)
                   (map_of kw ''projection'')) [0..<nat nc]) [0..<nat nr]))"
  using assms
  by (auto simp: stub_def stub_subplots_def Let_def split: option.splits if_splits)

lemma stub_grid_contract: "grid_contract (stub fails)"
  unfolding grid_contract_def
proof (intro allI impI)
  fix nr nc kw s fig ax s'
  assume a: "plt_subplots (stub fails) nr nc kw s = (Inr (fig, ax), s')"
  note r = stub_subplots_returns [OF a]
  from r have pos: "0 < nr" "0 < nc" by simp_all
  then have n: "int (nat nr * nat nc) = nr * nc" by simp
  from r have single: "(\<exists>a. ax = Single a) = (nr = 1 \<and> nc = 1)"
    by (auto split: if_splits)
  from r n have "int (length (surfaces ax)) = nr * nc"
    by (auto simp: surfaces_def length_grid split: if_splits)
  with single show "((\<exists>a. ax = Single a) = (nr = 1 \<and> nc = 1)) \<and> int (length (surfaces ax)) = nr * nc"
    by simp
qed

lemma stub_scalar_contract: "scalar_contract (stub fails)"
  using stub_grid_contract [of fails] unfolding grid_contract_def scalar_contract_def by blast

lemma stub_projection_contract: "projection_contract (stub fails)"
  unfolding projection_contract_def
proof (intro allI impI ballI)
  fix nr nc kw s fig ax s' a
  assume a: "plt_subplots (stub fails) nr nc kw s = (Inr (fig, ax), s')"
    and m: "a \<in> set (surfaces ax)"
  note r = stub_subplots_returns [OF a]
  from r m show "projection_of a = map_of kw ''projection''"
    by (auto simp: surfaces_def projection_of_def split: if_splits)
qed

lemma stub_leaves_object: "leaves_object (stub fails) r"
  by (auto simp: leaves_object_def stub_def stub_subplots_def Let_def split: option.splits)

section \<open>Further facts about the calls\<close>

lemma stub_squeeze_contract: "squeeze_contract (stub fails)"
  unfolding squeeze_contract_def
proof (intro allI impI)
  fix nr nc kw s fig ax s'
  assume a: "plt_subplots (stub fails) nr nc kw s = (Inr (fig, ax), s')"
  note r = stub_subplots_returns [OF a]
  from r have pos: "0 < nat nr" "0 < nat nc" by simp_all
  from r have n: "nat nr * nat nc = nat (nr * nc)" by (simp add: nat_mult_distrib)
  from pos have u: "[0..<nat nr] = 0 # [Suc 0..<nat nr]" by (simp add: upt_conv_Cons)
  show "shape ax = squeezed_shape nr nc"
  proof (cases "nr = 1 \<and> nc = 1")
    case True
    with r show ?thesis by (simp add: shape_def squeezed_shape_def)
  next
    case False
    show ?thesis
    proof (cases "nr = 1 \<or> nc = 1")
      case True
      with r False n show ?thesis
        by (auto simp: shape_def squeezed_shape_def length_grid)
    next
      case f2: False
      with r have "ax = Array2 (map (\<lambda>i. map (\<lambda>j. Surface (ext s + 1 + i * nat nc + j)
                   (map_of kw ''projection'')) [0..<nat nc]) [0..<nat nr])"
        by simp
      with f2 u pos show ?thesis
        by (simp add: shape_def squeezed_shape_def)
    qed
  qed
qed

lemma decorated_no_subplots: "filter is_subplots (map fst (decorated A xs)) = []"
  by (induction xs) (simp_all add: decorated_Nil decorated_Cons is_subplots_def gridline_call_def coastline_call_def)

lemma decorated_no_projection: "filter is_projection (map fst (decorated A xs)) = []"
  by (induction xs) (simp_all add: decorated_Nil decorated_Cons is_projection_def gridline_call_def coastline_call_def)

lemma quick_draw_one_construction:
  assumes "quick_draw_spatial_basemap P A s = (r, tr, s')"
  shows "tr \<noteq> [] \<and> filter is_projection (map fst tr) = [projection_call A] \<and>
         filter is_subplots (map fst tr) =
           (case snd (hd tr) of None \<Rightarrow> [subplots_call A] | Some e \<Rightarrow> [])"
proof (cases r)
  case (Inl e)
  with assms have "quick_draw_spatial_basemap P A s = (Inl e, tr, s')" by simp
  from quick_draw_raises [OF this] show ?thesis
    by (auto simp: decorated_no_subplots decorated_no_projection is_subplots_def
        is_projection_def projection_call_def subplots_call_def gridline_call_def
        coastline_call_def)
next
  case (Inr fa)
  obtain fig ax where "fa = (fig, ax)" by (cases fa)
  with Inr assms have "quick_draw_spatial_basemap P A s = (Inr (fig, ax), tr, s')" by simp
  from quick_draw_returns(2) [OF this] show ?thesis
    by (simp add: decorated_no_subplots decorated_no_projection is_subplots_def
        is_projection_def projection_call_def subplots_call_def)
qed









lemma quick_draw_outcome:
  assumes "scalar_contract P"
    and "quick_draw_spatial_basemap P A s = (r, tr, s')"
  shows "case r of
           Inr fa \<Rightarrow>
             tr = (projection_call A, None) # (subplots_call A, None) #
                    decorated A (surfaces (snd fa))
         | Inl e \<Rightarrow>
             tr = [(projection_call A, Some e)] \<or>
             tr = [(projection_call A, None), (subplots_call A, Some e)] \<or>
             (\<exists>s0 fig ax s1 pre a post.
                crs_PlateCarree P (central_longitude A) s = (None, s0) \<and>
                plt_subplots P (nrows A) (ncols A)
                  [(''projection'', PlateCarree (central_longitude A))] s0 = (Inr (fig, ax), s1) \<and>
                surfaces ax = pre @ a # post \<and>
                (tr = (projection_call A, None) # (subplots_call A, None) # decorated A pre @
                        [(gridline_call A a, Some e)] \<or>
                 tr = (projection_call A, None) # (subplots_call A, None) # decorated A pre @
                        [(gridline_call A a, None), (coastline_call A a, Some e)]))"
proof (cases r)
  case (Inl e)
  with assms(2) have run: "quick_draw_spatial_basemap P A s = (Inl e, tr, s')" by simp
  have no_mismatch: "(\<exists>a. ax = Single a) = (nrows A = 1 \<and> ncols A = 1)"
    if "plt_subplots P (nrows A) (ncols A)
          [(''projection'', PlateCarree (central_longitude A))] s0 = (Inr (fig, ax), s1)"
    for fig ax s0 s1
    using assms(1) that unfolding scalar_contract_def by blast
  from quick_draw_raises [OF run] no_mismatch
  have "tr = [(projection_call A, Some e)] \<or>
             tr = [(projection_call A, None), (subplots_call A, Some e)] \<or>
             (\<exists>s0 fig ax s1 pre a post.
                crs_PlateCarree P (central_longitude A) s = (None, s0) \<and>
                plt_subplots P (nrows A) (ncols A)
                  [(''projection'', PlateCarree (central_longitude A))] s0 = (Inr (fig, ax), s1) \<and>
                surfaces ax = pre @ a # post \<and>
                (tr = (projection_call A, None) # (subplots_call A, None) # decorated A pre @
                        [(gridline_call A a, Some e)] \<or>
                 tr = (projection_call A, None) # (subplots_call A, None) # decorated A pre @
                        [(gridline_call A a, None), (coastline_call A a, Some e)]))"
    by blast
  with Inl show ?thesis by simp
next
  case (Inr fa)
  obtain fig ax where fa: "fa = (fig, ax)" by (cases fa)
  with Inr assms(2) have "quick_draw_spatial_basemap P A s = (Inr (fig, ax), tr, s')" by simp
  from quick_draw_returns(2) [OF this] Inr fa show ?thesis by simp
qed

lemma set_decorated:
  "set (map fst (decorated A xs)) = gridline_call A ` set xs \<union> coastline_call A ` set xs"
  by (induction xs) (auto simp: decorated_Nil decorated_Cons)

lemma length_decorated: "length (decorated A xs) = 2 * length xs"
  by (induction xs) (simp_all add: decorated_Nil decorated_Cons)

lemma repeated_default_calls_heap:
  "leaves_object P r \<Longrightarrow> heap (repeated_default_calls P n s) r = heap s r"
proof (induction n arbitrary: s)
  case 0
  show ?case by simp
next
  case (Suc n)
  from Suc.IH [OF Suc.prems] quick_draw_heap [OF Suc.prems, of default_args s]
  show ?case by simp
qed

section \<open>The claims\<close>



text \<open>
  C2 (as stated, refuted). A grid of one row and three columns: the call is made without
  \<^verbatim>\<open>squeeze\<close>, and what comes back is a one-dimensional array of three surfaces, of shape
  (3,) and not (1, 3).
\<close>

theorem basemap_shape_counterexample:
  "fst (quick_draw_spatial_basemap (stub never) (default_args\<lparr>nrows := 1, ncols := 3\<rparr>)
          module_state) =
     Inr (0, Array1 [Surface 1 (Some (PlateCarree 0)), Surface 2 (Some (PlateCarree 0)),
                     Surface 3 (Some (PlateCarree 0))]) \<and>
   shape (Array1 [Surface 1 (Some (PlateCarree 0)), Surface 2 (Some (PlateCarree 0)),
                  Surface 3 (Some (PlateCarree 0))]) = Some [3] \<and>
   shape (Array1 [Surface 1 (Some (PlateCarree 0)), Surface 2 (Some (PlateCarree 0)),
                  Surface 3 (Some (PlateCarree 0))]) \<noteq> Some [1, 3]"
proof -
  have "fst (quick_draw_spatial_basemap (stub never) (default_args\<lparr>nrows := 1, ncols := 3\<rparr>)
          module_state) =
     Inr (0, Array1 [Surface 1 (Some (PlateCarree 0)), Surface 2 (Some (PlateCarree 0)),
                     Surface 3 (Some (PlateCarree 0))])"
    by code_simp
  then show ?thesis by (simp add: shape_def)
qed

text \<open>
  C2 (amended). The function hands back the surface value as \<^verbatim>\<open>plt.subplots\<close> built it,
  and never reshapes it. With the default squeezing of that call: one Axes object when both
  counts are 1, a one-dimensional array of \<open>nrows * ncols\<close> surfaces when exactly one of
  them exceeds 1, and an array of shape \<open>(nrows, ncols)\<close> when both exceed 1.
\<close>

theorem basemap_shape:
  assumes "squeeze_contract P"
    and "quick_draw_spatial_basemap P A s = (Inr (fig, ax), tr, s')"
  shows "(\<exists>s0 s1. crs_PlateCarree P (central_longitude A) s = (None, s0) \<and>
            plt_subplots P (nrows A) (ncols A)
              [(''projection'', PlateCarree (central_longitude A))] s0 = (Inr (fig, ax), s1)) \<and>
         (if nrows A = 1 \<and> ncols A = 1 then \<exists>a. ax = Single a
          else if nrows A = 1 \<or> ncols A = 1 then shape ax = Some [nat (nrows A * ncols A)]
          else shape ax = Some [nat (nrows A), nat (ncols A)])"
proof -
  note r = quick_draw_returns [OF assms(2)]
  from r(1) assms(1) have "shape ax = squeezed_shape (nrows A) (ncols A)"
    unfolding squeeze_contract_def by blast
  with r(1) r(3) show ?thesis
    by (auto simp: squeezed_shape_def)
qed

theorem basemap_shape_witness:
  "squeeze_contract (stub never) \<and>
   fst (quick_draw_spatial_basemap (stub never) (default_args\<lparr>nrows := 2, ncols := 3\<rparr>)
          module_state) =
     Inr (0, Array2
          [[Surface 1 (Some (PlateCarree 0)), Surface 2 (Some (PlateCarree 0)),
            Surface 3 (Some (PlateCarree 0))],
           [Surface 4 (Some (PlateCarree 0)), Surface 5 (Some (PlateCarree 0)),
            Surface 6 (Some (PlateCarree 0))]]) \<and>
   shape (Array2
          [[Surface 1 (Some (PlateCarree 0)), Surface 2 (Some (PlateCarree 0)),
            Surface 3 (Some (PlateCarree 0))],
           [Surface 4 (Some (PlateCarree 0)), Surface 5 (Some (PlateCarree 0)),
            Surface 6 (Some (PlateCarree 0))]]) = Some [2, 3]"
proof -
  let ?A = "default_args\<lparr>nrows := 2, ncols := 3\<rparr>"
  let ?run = "quick_draw_spatial_basemap (stub never) ?A module_state"
  let ?ax = "Array2
          [[Surface 1 (Some (PlateCarree 0)), Surface 2 (Some (PlateCarree 0)),
            Surface 3 (Some (PlateCarree 0))],
           [Surface 4 (Some (PlateCarree 0)), Surface 5 (Some (PlateCarree 0)),
            Surface 6 (Some (PlateCarree 0))]]"
  have sc: "squeeze_contract (stub never)" by (rule stub_squeeze_contract)
  have r: "fst ?run = Inr (0, ?ax)" by code_simp
  then have run: "?run = (Inr (0, ?ax), fst (snd ?run), snd (snd ?run))"
    by (metis prod.collapse)
  from basemap_shape [OF sc run] have "shape ?ax = Some [nat (nrows ?A), nat (ncols ?A)]"
    by (simp add: default_args_def)
  then have "shape ?ax = Some [2, 3]" by (simp add: default_args_def)
  with sc r show ?thesis by blast
qed

text \<open>
  C3. In every call the projection is built by one constructor call, with the central
  longitude given, and never again; if that call returns, the object
  \<open>PlateCarree central_longitude\<close> is handed to the one figure construction there is.
  When the call returns, every surface of the grid carries that projection (the toolkit
  gives each surface the projection of \<^verbatim>\<open>subplot_kw\<close>). The projection differs from
  the default one exactly when the central longitude is not 0.
\<close>

theorem basemap_projection:
  assumes "projection_contract P"
    and "quick_draw_spatial_basemap P A s = (r, tr, s')"
  shows "tr \<noteq> [] \<and>
         filter is_projection (map fst tr) = [CallPlateCarree (central_longitude A)] \<and>
         filter is_subplots (map fst tr) =
           (case snd (hd tr) of
              None \<Rightarrow>
                [CallSubplots (nrows A) (ncols A)
                   [(''projection'', PlateCarree (central_longitude A))]]
            | Some e \<Rightarrow> []) \<and>
         (\<forall>fig ax. r = Inr (fig, ax) \<longrightarrow>
            filter is_subplots (map fst tr) =
              [CallSubplots (nrows A) (ncols A)
                 [(''projection'', PlateCarree (central_longitude A))]] \<and>
            (\<forall>a \<in> set (surfaces ax). projection_of a = Some (PlateCarree (central_longitude A)))) \<and>
         ((PlateCarree (central_longitude A) = PlateCarree (central_longitude default_args)) =
            (central_longitude A = 0))"
proof -
  have one: "tr \<noteq> [] \<and>
         filter is_projection (map fst tr) = [CallPlateCarree (central_longitude A)] \<and>
         filter is_subplots (map fst tr) =
           (case snd (hd tr) of
              None \<Rightarrow>
                [CallSubplots (nrows A) (ncols A)
                   [(''projection'', PlateCarree (central_longitude A))]]
            | Some e \<Rightarrow> [])"
    using quick_draw_one_construction [OF assms(2)]
    unfolding subplots_call_def projection_call_def by simp
  have each: "filter is_subplots (map fst tr) =
              [CallSubplots (nrows A) (ncols A)
                 [(''projection'', PlateCarree (central_longitude A))]] \<and>
      (\<forall>a \<in> set (surfaces ax). projection_of a = Some (PlateCarree (central_longitude A)))"
    if "r = Inr (fig, ax)" for fig ax
  proof -
    from that assms(2) have run: "quick_draw_spatial_basemap P A s = (Inr (fig, ax), tr, s')"
      by simp
    from quick_draw_returns(2) [OF run] have "snd (hd tr) = None" by simp
    with one have f: "filter is_subplots (map fst tr) =
              [CallSubplots (nrows A) (ncols A)
                 [(''projection'', PlateCarree (central_longitude A))]]"
      by simp
    from quick_draw_returns(1) [OF run] obtain s0 s1 where
      "plt_subplots P (nrows A) (ncols A)
         [(''projection'', PlateCarree (central_longitude A))] s0 = (Inr (fig, ax), s1)"
      by blast
    with assms(1) have "\<forall>a \<in> set (surfaces ax).
        projection_of a = map_of [(''projection'', PlateCarree (central_longitude A))] ''projection''"
      unfolding projection_contract_def by blast
    with f show ?thesis by simp
  qed
  have "(PlateCarree (central_longitude A) = PlateCarree (central_longitude default_args)) =
            (central_longitude A = 0)"
    by (simp add: default_args_def)
  with one each show ?thesis by blast
qed

theorem basemap_projection_witness:
  "projection_contract (stub never) \<and>
   fst (quick_draw_spatial_basemap (stub never)
          (default_args\<lparr>ncols := 2, central_longitude := 180\<rparr>) module_state) =
     Inr (0, Array1 [Surface 1 (Some (PlateCarree 180)), Surface 2 (Some (PlateCarree 180))]) \<and>
   filter is_projection (map fst (fst (snd (quick_draw_spatial_basemap (stub never)
          (default_args\<lparr>ncols := 2, central_longitude := 180\<rparr>) module_state)))) =
     [CallPlateCarree 180] \<and>
   filter is_subplots (map fst (fst (snd (quick_draw_spatial_basemap (stub never)
          (default_args\<lparr>ncols := 2, central_longitude := 180\<rparr>) module_state)))) =
     [CallSubplots 1 2 [(''projection'', PlateCarree 180)]] \<and>
   projection_of (Surface 1 (Some (PlateCarree 180))) = Some (PlateCarree 180) \<and>
   projection_of (Surface 2 (Some (PlateCarree 180))) = Some (PlateCarree 180) \<and>
   PlateCarree 180 \<noteq> PlateCarree (central_longitude default_args)"
proof -
  let ?A = "default_args\<lparr>ncols := 2, central_longitude := 180\<rparr>"
  let ?run = "quick_draw_spatial_basemap (stub never) ?A module_state"
  let ?ax = "Array1 [Surface 1 (Some (PlateCarree 180)), Surface 2 (Some (PlateCarree 180))]"
  have pc: "projection_contract (stub never)" by (rule stub_projection_contract)
  have r: "fst ?run = Inr (0, ?ax)" by code_simp
  then have run: "?run = (Inr (0, ?ax), fst (snd ?run), snd (snd ?run))"
    by (metis prod.collapse)
  note t = basemap_projection [OF pc run]
  from t have zero: "filter is_projection (map fst (fst (snd ?run))) = [CallPlateCarree 180]"
    by (simp add: default_args_def)
  from t have "filter is_subplots (map fst (fst (snd ?run))) =
              [CallSubplots (nrows ?A) (ncols ?A)
                 [(''projection'', PlateCarree (central_longitude ?A))]]"
    by blast
  then have one: "filter is_subplots (map fst (fst (snd ?run))) =
     [CallSubplots 1 2 [(''projection'', PlateCarree 180)]]"
    by (simp add: default_args_def)
  from t have "\<forall>a \<in> set (surfaces ?ax). projection_of a = Some (PlateCarree (central_longitude ?A))"
    by blast
  then have each: "projection_of (Surface 1 (Some (PlateCarree 180))) = Some (PlateCarree 180)"
    "projection_of (Surface 2 (Some (PlateCarree 180))) = Some (PlateCarree 180)"
    by (simp_all add: surfaces_def)
  from t have "(PlateCarree (central_longitude ?A) = PlateCarree (central_longitude default_args)) =
            (central_longitude ?A = 0)" by blast
  then have "PlateCarree 180 \<noteq> PlateCarree (central_longitude default_args)"
    by simp
  with pc r zero one each show ?thesis by blast
qed












text \<open>
  C8. Whatever the arguments are, non-positive counts included, the function checks
  nothing itself: its first step is the construction of the projection, and once that has
  returned its next step is the figure construction, with the counts as given. Whenever
  the call ends with an exception, that exception is the one the last toolkit call raised,
  unchanged.
\<close>

theorem basemap_no_validation:
  assumes "scalar_contract P"
    and "quick_draw_spatial_basemap P A s = (r, tr, s')"
  shows "tr \<noteq> [] \<and>
         fst (hd tr) = CallPlateCarree (central_longitude A) \<and>
         (snd (hd tr) = None \<longrightarrow>
            1 < length tr \<and>
            fst (tr ! 1) =
              CallSubplots (nrows A) (ncols A)
                [(''projection'', PlateCarree (central_longitude A))]) \<and>
         (\<forall>e. r = Inl e \<longrightarrow> snd (last tr) = Some e)"
proof (cases r)
  case (Inl e)
  with quick_draw_outcome [OF assms] show ?thesis
    by (auto simp: projection_call_def subplots_call_def)
next
  case (Inr fa)
  with quick_draw_outcome [OF assms] show ?thesis
    by (simp add: projection_call_def subplots_call_def)
qed

theorem basemap_no_validation_witness:
  "scalar_contract (stub never) \<and>
   fst (quick_draw_spatial_basemap (stub never) (default_args\<lparr>nrows := 0\<rparr>) module_state) =
     Inl (ValueError ''Number of rows and columns must be positive'') \<and>
   fst (hd (fst (snd (quick_draw_spatial_basemap (stub never) (default_args\<lparr>nrows := 0\<rparr>)
     module_state)))) = CallPlateCarree 0 \<and>
   fst (fst (snd (quick_draw_spatial_basemap (stub never) (default_args\<lparr>nrows := 0\<rparr>)
     module_state)) ! 1) = CallSubplots 0 1 [(''projection'', PlateCarree 0)] \<and>
   snd (last (fst (snd (quick_draw_spatial_basemap (stub never) (default_args\<lparr>nrows := 0\<rparr>)
     module_state)))) = Some (ValueError ''Number of rows and columns must be positive'') \<and>
   scalar_contract (stub projection_fails) \<and>
   fst (quick_draw_spatial_basemap (stub projection_fails) default_args module_state) =
     Inl (TypeError ''central_longitude'') \<and>
   fst (hd (fst (snd (quick_draw_spatial_basemap (stub projection_fails) default_args
     module_state)))) = CallPlateCarree 0 \<and>
   snd (last (fst (snd (quick_draw_spatial_basemap (stub projection_fails) default_args
     module_state)))) = Some (TypeError ''central_longitude'')"
proof -
  let ?A = "default_args\<lparr>nrows := 0\<rparr>"
  let ?run = "quick_draw_spatial_basemap (stub never) ?A module_state"
  let ?e = "ValueError ''Number of rows and columns must be positive''"
  have gc: "scalar_contract (stub never)" by (rule stub_scalar_contract)
  have r: "fst ?run = Inl ?e" by code_simp
  then have run: "?run = (Inl ?e, fst (snd ?run), snd (snd ?run))"
    by (metis prod.collapse)
  have h: "snd (hd (fst (snd ?run))) = None" by code_simp
  from basemap_no_validation [OF gc run] h
  have one: "fst (hd (fst (snd ?run))) = CallPlateCarree 0 \<and>
      fst (fst (snd ?run) ! 1) = CallSubplots 0 1 [(''projection'', PlateCarree 0)] \<and>
      snd (last (fst (snd ?run))) = Some ?e"
    by (simp add: default_args_def)
  let ?run2 = "quick_draw_spatial_basemap (stub projection_fails) default_args module_state"
  let ?e2 = "TypeError ''central_longitude''"
  have gc2: "scalar_contract (stub projection_fails)" by (rule stub_scalar_contract)
  have r2: "fst ?run2 = Inl ?e2" by code_simp
  then have run2: "?run2 = (Inl ?e2, fst (snd ?run2), snd (snd ?run2))"
    by (metis prod.collapse)
  from basemap_no_validation [OF gc2 run2]
  have two: "fst (hd (fst (snd ?run2))) = CallPlateCarree 0 \<and>
      snd (last (fst (snd ?run2))) = Some ?e2"
    by (simp add: default_args_def)
  from gc r one gc2 r2 two show ?thesis by blast
qed


text \<open>
  C9. When the call returns, the figure and the surface value returned are the very pair
  the figure construction produced. The only toolkit calls made are the two constructions
  (the projection, then the figure) and the gridline and coastline calls of the surfaces
  returned, two for each: nothing is saved, shown or re-wrapped.
\<close>

theorem basemap_returns_constructed:
  assumes "quick_draw_spatial_basemap P A s = (Inr (fig, ax), tr, s')"
  shows "(\<exists>s0 s1. crs_PlateCarree P (central_longitude A) s = (None, s0) \<and>
            plt_subplots P (nrows A) (ncols A)
              [(''projection'', PlateCarree (central_longitude A))] s0 = (Inr (fig, ax), s1)) \<and>
         length tr = 2 + 2 * length (surfaces ax) \<and>
         set (map fst tr) =
           {projection_call A, subplots_call A} \<union> gridline_call A ` set (surfaces ax) \<union>
             coastline_call A ` set (surfaces ax)"
proof -
  note r = quick_draw_returns [OF assms]
  from r(2) have "length tr = 2 + 2 * length (surfaces ax)"
    by (simp add: length_decorated)
  moreover from r(2) have "set (map fst tr) =
           {projection_call A, subplots_call A} \<union> gridline_call A ` set (surfaces ax) \<union>
             coastline_call A ` set (surfaces ax)"
    using set_decorated [of A "surfaces ax"] by simp
  ultimately show ?thesis using r(1) by blast
qed

theorem basemap_returns_constructed_witness:
  "fst (quick_draw_spatial_basemap (stub never) (default_args\<lparr>nrows := 3\<rparr>) module_state) =
     Inr (0, Array1 [Surface 1 (Some (PlateCarree 0)), Surface 2 (Some (PlateCarree 0)),
                     Surface 3 (Some (PlateCarree 0))]) \<and>
   fst (plt_subplots (stub never) 3 1 [(''projection'', PlateCarree 0)] module_state) =
     Inr (0, Array1 [Surface 1 (Some (PlateCarree 0)), Surface 2 (Some (PlateCarree 0)),
                     Surface 3 (Some (PlateCarree 0))]) \<and>
   length (fst (snd (quick_draw_spatial_basemap (stub never) (default_args\<lparr>nrows := 3\<rparr>)
     module_state))) = 8"
proof -
  let ?A = "default_args\<lparr>nrows := 3\<rparr>"
  let ?run = "quick_draw_spatial_basemap (stub never) ?A module_state"
  let ?ax = "Array1 [Surface 1 (Some (PlateCarree 0)), Surface 2 (Some (PlateCarree 0)),
                     Surface 3 (Some (PlateCarree 0))]"
  have r: "fst ?run = Inr (0, ?ax)" by code_simp
  then have run: "?run = (Inr (0, ?ax), fst (snd ?run), snd (snd ?run))"
    by (metis prod.collapse)
  note t = basemap_returns_constructed [OF run]
  from t obtain s0 s1 where
    c: "crs_PlateCarree (stub never) (central_longitude ?A) module_state = (None, s0)" and
    p0: "plt_subplots (stub never) (nrows ?A) (ncols ?A)
            [(''projection'', PlateCarree (central_longitude ?A))] s0 = (Inr (0, ?ax), s1)"
    by blast
  from c have "s0 = module_state" by (simp add: stub_def)
  with p0 have p: "fst (plt_subplots (stub never) 3 1 [(''projection'', PlateCarree 0)]
      module_state) = Inr (0, ?ax)"
    by (simp add: default_args_def)
  from t have "length (fst (snd ?run)) = 2 + 2 * length (surfaces ?ax)" by blast
  then have "length (fst (snd ?run)) = 8" by (simp add: surfaces_def)
  with r p show ?thesis by blast
qed


text \<open>
  C10. The function writes to no object. Whatever object the toolkit's calls leave as it
  is, the whole call leaves as it is, and so does any number of calls with the default
  arguments: \<^verbatim>\<open>draw_labels\<close> in particular, the shared default list included, is read and
  forwarded only. (The other arguments are immutable values.)
\<close>

theorem basemap_leaves_arguments:
  assumes "leaves_object P r"
  shows "heap (snd (snd (quick_draw_spatial_basemap P A s))) r = heap s r \<and>
         heap (repeated_default_calls P n s) r = heap s r"
  using quick_draw_heap [OF assms] repeated_default_calls_heap [OF assms] by simp

theorem basemap_leaves_arguments_witness:
  "leaves_object (stub never) default_draw_labels \<and>
   heap module_state default_draw_labels = Some (PyList [''bottom'', ''left'']) \<and>
   heap (snd (snd (quick_draw_spatial_basemap (stub never) default_args module_state)))
     default_draw_labels = Some (PyList [''bottom'', ''left'']) \<and>
   heap (repeated_default_calls (stub never) 3 module_state) default_draw_labels =
     Some (PyList [''bottom'', ''left''])"
proof -
  have l: "leaves_object (stub never) default_draw_labels" by (rule stub_leaves_object)
  have h: "heap module_state default_draw_labels = Some (PyList [''bottom'', ''left''])"
    by (simp add: module_state_def module_heap_def)
  from basemap_leaves_arguments [OF l, of default_args module_state 3] l h show ?thesis
    by simp
qed

end
